theory Spec2Isabelle
  imports Complex_Main
begin

section \<open>Python values, exceptions and operators\<close>

text \<open>
  The two calculators of the repository, \<open>MetalDiff\<close> (DiffusionAlloys.py) and
  \<open>DiffGas_AB\<close> (DiffusionGases.py), look constants up in dictionaries and evaluate
  one arithmetic expression. They are read as Python 3 (\<open>1/2\<close> is \<open>0.5\<close>).

  Numbers: a Python \<open>float\<close> (and the few \<open>int\<close> literals, which the
  expressions convert to \<open>float\<close> at once) is a \<open>real\<close>; every operator returns the
  exact result, so rounding, infinities and NaN are outside this model. The range of a
  double is kept where Python raises on leaving it: \<open>**\<close> and \<open>math.exp\<close> raise
  \<open>OverflowError\<close> when the result is beyond the largest double, here when the exact
  result is. The operators \<open>*\<close>, \<open>/\<close> and \<open>+\<close> never raise on overflow. What the model
  keeps is the control flow: the order of evaluation, the exceptions (\<open>KeyError\<close>,
  \<open>ZeroDivisionError\<close>, \<open>ValueError\<close>, \<open>OverflowError\<close>), which handler catches
  them, and what is printed.
\<close>

datatype py_error = KeyError string | ZeroDivisionError | ValueError | OverflowError

text \<open>The largest finite double, \<open>(2 - 2^-52) * 2^1023\<close>.\<close>

definition DBL_MAX :: real where
  "DBL_MAX = (2 ^ 53 - 1) * 2 ^ 971"

text \<open>A negative float raised to a fractional power is a \<open>complex\<close> in Python 3.\<close>

datatype py_num = PyFloat real | PyComplex complex

text \<open>Sequencing of evaluations: the first exception raised ends the evaluation.\<close>

definition and_then :: "py_error + 'a \<Rightarrow> ('a \<Rightarrow> py_error + 'b) \<Rightarrow> py_error + 'b" where
  "and_then r f = (case r of Inl e \<Rightarrow> Inl e | Inr v \<Rightarrow> f v)"

text \<open>
  A dictionary literal is the list of its \<open>key: value\<close> pairs (no literal of the source
  repeats a key). \<open>d[k]\<close> raises \<open>KeyError(k)\<close> for a missing key.
\<close>

type_synonym 'v dict = "(string \<times> 'v) list"

definition getitem :: "'v dict \<Rightarrow> string \<Rightarrow> py_error + 'v" where
  "getitem d k = (case map_of d k of None \<Rightarrow> Inl (KeyError k) | Some v \<Rightarrow> Inr v)"

text \<open>\<open>try: ... except KeyError: raise KeyError(msg)\<close>: other exceptions pass through.\<close>

definition except_KeyError :: "py_error + 'a \<Rightarrow> string \<Rightarrow> py_error + 'a" where
  "except_KeyError r msg = (case r of Inl (KeyError k) \<Rightarrow> Inl (KeyError msg) | _ \<Rightarrow> r)"

text \<open>\<open>x / y\<close> on floats.\<close>

definition float_truediv :: "real \<Rightarrow> real \<Rightarrow> py_error + real" where
  "float_truediv x y = (if y = 0 then Inl ZeroDivisionError else Inr (x / y))"

text \<open>\<open>math.sqrt\<close>: a negative argument is a \<open>ValueError\<close>.\<close>

definition math_sqrt :: "real \<Rightarrow> py_error + real" where
  "math_sqrt x = (if x < 0 then Inl ValueError else Inr (sqrt x))"

text \<open>\<open>math.exp\<close>: a result beyond the largest double is an \<open>OverflowError\<close>.\<close>

definition math_exp :: "real \<Rightarrow> py_error + real" where
  "math_exp x = (if DBL_MAX < exp x then Inl OverflowError else Inr (exp x))"

text \<open>
  \<open>x ** y\<close> on floats (\<open>float_pow\<close> of CPython): \<open>x ** 0\<close> is \<open>1.0\<close>; zero to a
  negative power raises \<open>ZeroDivisionError\<close>; a negative base with a fractional exponent
  goes to the complex power, of modulus \<open>|x| ** y\<close> and argument \<open>pi * y\<close>; and in every
  branch a result whose size is beyond the largest double raises \<open>OverflowError\<close>.
\<close>

definition float_pow :: "real \<Rightarrow> real \<Rightarrow> py_error + py_num" where
  "float_pow x y =
     (if y = 0 then Inr (PyFloat 1)
      else if x = 0 then (if y < 0 then Inl ZeroDivisionError else Inr (PyFloat 0))
      else if x < 0 \<and> y \<noteq> of_int \<lfloor>y\<rfloor> then
        (if DBL_MAX < \<bar>x\<bar> powr y then Inl OverflowError
         else Inr (PyComplex (rcis (\<bar>x\<bar> powr y) (pi * y))))
      else if x < 0 then
        (if DBL_MAX < \<bar>x powi \<lfloor>y\<rfloor>\<bar> then Inl OverflowError
         else Inr (PyFloat (x powi \<lfloor>y\<rfloor>)))
      else
        (if DBL_MAX < x powr y then Inl OverflowError
         else Inr (PyFloat (x powr y))))"

text \<open>
  \<open>z ** y\<close> on a complex base with a real exponent (\<open>complex_pow\<close> of CPython), with
  \<open>OverflowError\<close> when a part of the result is beyond the largest double.
\<close>

definition complex_pow :: "complex \<Rightarrow> real \<Rightarrow> py_error + py_num" where
  "complex_pow z y =
     (if y = 0 then Inr (PyComplex 1)
      else if z = 0 then (if y < 0 then Inl ZeroDivisionError else Inr (PyComplex 0))
      else if y = of_int \<lfloor>y\<rfloor> then
        (if DBL_MAX < \<bar>Re (z powi \<lfloor>y\<rfloor>)\<bar> \<or> DBL_MAX < \<bar>Im (z powi \<lfloor>y\<rfloor>)\<bar>
         then Inl OverflowError
         else Inr (PyComplex (z powi \<lfloor>y\<rfloor>)))
      else
        (if DBL_MAX < cmod z powr y then Inl OverflowError
         else Inr (PyComplex (rcis (cmod z powr y) (Arg z * y)))))"

fun to_complex :: "py_num \<Rightarrow> complex" where
  "to_complex (PyFloat x) = complex_of_real x"
| "to_complex (PyComplex z) = z"

text \<open>The binary operators: two floats give a float, otherwise both become complex.\<close>

fun py_add :: "py_num \<Rightarrow> py_num \<Rightarrow> py_num" where
  "py_add (PyFloat x) (PyFloat y) = PyFloat (x + y)"
| "py_add a b = PyComplex (to_complex a + to_complex b)"

fun py_mul :: "py_num \<Rightarrow> py_num \<Rightarrow> py_num" where
  "py_mul (PyFloat x) (PyFloat y) = PyFloat (x * y)"
| "py_mul a b = PyComplex (to_complex a * to_complex b)"

fun py_truediv :: "py_num \<Rightarrow> py_num \<Rightarrow> py_error + py_num" where
  "py_truediv (PyFloat x) (PyFloat y) =
     (if y = 0 then Inl ZeroDivisionError else Inr (PyFloat (x / y)))"
| "py_truediv a b =
     (if to_complex b = 0 then Inl ZeroDivisionError
      else Inr (PyComplex (to_complex a / to_complex b)))"

fun py_pow :: "py_num \<Rightarrow> real \<Rightarrow> py_error + py_num" where
  "py_pow (PyFloat x) y = float_pow x y"
| "py_pow (PyComplex z) y = complex_pow z y"

section \<open>DiffusionAlloys.py\<close>

text \<open>A line written by \<open>print\<close>: its arguments, in order.\<close>

datatype printed = Str string | Num real

definition MetalDiff_R :: real where
  "MetalDiff_R = 8.314"

text \<open>Atomic weights [g/mol].\<close>

definition MetalDiff_M :: "real dict" where
  "MetalDiff_M =
     [(''H'', 1.00794),
      (''D'', 2.01410),
      (''T'', 3.01605),
      (''He'', 4.00260)]"

text \<open>Pre-exponential factors [m^2/s]; \<open>1.22e-6\<close> is written \<open>1.22 / 10 ^ 6\<close>.\<close>

definition MetalDiff_D0 :: "real dict dict" where
  "MetalDiff_D0 =
     [(''SS304'', [(''H'', 1.22 / 10 ^ 6)]),
      (''SS316'', [(''H'', 1.24 / 10 ^ 6), (''D'', 1.38 / 10 ^ 6)]),
      (''Alpha-Fe'', [(''H'', 3.87 / 10 ^ 8)]),
      (''75Pd-25Ag'', [(''H'', 3.07 / 10 ^ 7), (''D'', 1.87 / 10 ^ 7)]),
      (''EUROFER97'', [(''H'', 4.57 / 10 ^ 7), (''D'', 1.50 / 10 ^ 7)]),
      (''OPTIFER-IVb'', [(''H'', 5.49 / 10 ^ 8), (''D'', 4.61 / 10 ^ 8),
                       (''T'', 4.17 / 10 ^ 8)])]"

text \<open>Activation energies [kJ/mol].\<close>

definition MetalDiff_Ea :: "real dict dict" where
  "MetalDiff_Ea =
     [(''SS304'', [(''H'', 54.85)]),
      (''SS316'', [(''H'', 55.10), (''D'', 57.50)]),
      (''Alpha-Fe'', [(''H'', 4.50)]),
      (''75Pd-25Ag'', [(''H'', 25.90), (''D'', 24.69)]),
      (''EUROFER97'', [(''H'', 22.30), (''D'', 14.50)]),
      (''OPTIFER-IVb'', [(''H'', 10.60), (''D'', 11.30), (''T'', 12.00)])]"

text \<open>Temperature range [K], lower and upper.\<close>

definition MetalDiff_T_min :: "real dict" where
  "MetalDiff_T_min =
     [(''SS304'', 645),
      (''SS316'', 623),
      (''Alpha-Fe'', 573),
      (''75Pd-25Ag'', 323),
      (''EUROFER97'', 373),
      (''OPTIFER-IVb'', 423)]"

definition MetalDiff_T_max :: "real dict" where
  "MetalDiff_T_max =
     [(''SS304'', 945),
      (''SS316'', 1123),
      (''Alpha-Fe'', 873),
      (''75Pd-25Ag'', 773),
      (''EUROFER97'', 723),
      (''OPTIFER-IVb'', 892)]"

text \<open>
  The first \<open>try\<close> block (lines 135-139): the condition
  \<open>((T_min[A] > T) or (T_max[A] < T)) and W\<close>, with \<open>or\<close> and \<open>and\<close> evaluated lazily, and
  the \<open>print\<close>, whose arguments are looked up again. The result is what was written to the
  console; a \<open>KeyError\<close> becomes \<open>KeyError('Unsuported Alloy selected')\<close>.
\<close>

definition out_of_range :: "string \<Rightarrow> real \<Rightarrow> py_error + bool" where
  "out_of_range A T =
     and_then (getitem MetalDiff_T_min A) (\<lambda>lo.
       if lo > T then Inr True
       else and_then (getitem MetalDiff_T_max A) (\<lambda>hi. Inr (hi < T)))"

definition warning_line :: "string \<Rightarrow> py_error + printed list" where
  "warning_line A =
     and_then (getitem MetalDiff_T_min A) (\<lambda>lo.
     and_then (getitem MetalDiff_T_max A) (\<lambda>hi.
       Inr [Str ''Warning: Temperature used out of the correlation range ['',
            Num lo, Str ''-'', Num hi, Str '']K'']))"

definition range_check :: "string \<Rightarrow> real \<Rightarrow> bool \<Rightarrow> py_error + printed list list" where
  "range_check A T W =
     except_KeyError
       (and_then (out_of_range A T) (\<lambda>c.
          if c \<and> W then and_then (warning_line A) (\<lambda>l. Inr [l]) else Inr []))
       ''Unsuported Alloy selected''"

text \<open>
  The Arrhenius expression \<open>D0[A][Q]*exp(-Ea[A][Q]*1000/(R*T))\<close> of lines 143 and 148,
  evaluated left to right: both subscripts of \<open>D0\<close>, both of \<open>Ea\<close>, the division, \<open>exp\<close>.
\<close>

definition arrhenius :: "string \<Rightarrow> string \<Rightarrow> real \<Rightarrow> py_error + real" where
  "arrhenius A Q T =
     and_then (getitem MetalDiff_D0 A) (\<lambda>d0A.
     and_then (getitem d0A Q) (\<lambda>d0.
     and_then (getitem MetalDiff_Ea A) (\<lambda>eaA.
     and_then (getitem eaA Q) (\<lambda>ea.
     and_then (float_truediv (- ea * 1000) (MetalDiff_R * T)) (\<lambda>x.
     and_then (math_exp x) (\<lambda>e.
       Inr (d0 * e)))))))"

text \<open>
  The third \<open>try\<close> block (lines 147-152), Graham's law from the \<open>'H'\<close> entry:
  \<open>D_H*sqrt(M['H']/M[Q])\<close>. A \<open>KeyError\<close> becomes
  \<open>KeyError('Unsuported Isotope selected')\<close>; any other exception leaves the function.
\<close>

definition graham :: "string \<Rightarrow> string \<Rightarrow> real \<Rightarrow> py_error + real" where
  "graham A Q T =
     except_KeyError
       (and_then (arrhenius A ''H'' T) (\<lambda>D_H.
        and_then (getitem MetalDiff_M ''H'') (\<lambda>mH.
        and_then (getitem MetalDiff_M Q) (\<lambda>mQ.
        and_then (float_truediv mH mQ) (\<lambda>q.
        and_then (math_sqrt q) (\<lambda>s.
          Inr (D_H * s)))))))
       ''Unsuported Isotope selected''"

text \<open>
  \<open>MetalDiff(A, Q, T, W)\<close>: the console output and the outcome. The second \<open>try\<close> block
  (lines 142-145) returns the direct value; its bare \<open>except\<close> swallows every exception
  and control falls to the third block.
\<close>

definition MetalDiff :: "string \<Rightarrow> string \<Rightarrow> real \<Rightarrow> bool \<Rightarrow> printed list list \<times> (py_error + real)" where
  "MetalDiff A Q T W =
     (case range_check A T W of
        Inl e \<Rightarrow> ([], Inl e)
      | Inr out \<Rightarrow>
          (case arrhenius A Q T of
             Inr D \<Rightarrow> (out, Inr D)
           | Inl e \<Rightarrow> (out, graham A Q T)))"

section \<open>DiffusionGases.py\<close>

text \<open>Atomic weights [g/mol].\<close>

definition DiffGas_AB_M :: "real dict" where
  "DiffGas_AB_M =
     [(''H2'', 2.01593),
      (''D2'', 4.028204),
      (''He'', 4.002598),
      (''N2'', 28.01403),
      (''H2O'', 18.01534),
      (''Kr'', 83.800),
      (''Xe'', 131.300),
      (''Air'', 28.963),
      (''Ar'', 39.948),
      (''SF6'', 146.05),
      (''O2'', 32.000),
      (''CO2'', 44.010),
      (''CO'', 28.020),
      (''N2O'', 44.010),
      (''NH3'', 17.030),
      (''SO2'', 64.0638),
      (''Cl2'', 70.90),
      (''Br2'', 159.808)]"

text \<open>Atomic diffusion volume [cm^3].\<close>

definition DiffGas_AB_SIGMA_v :: "real dict" where
  "DiffGas_AB_SIGMA_v =
     [(''H2'', 6.12),
      (''D2'', 6.84),
      (''He'', 2.67),
      (''N2'', 18.5),
      (''H2O'', 13.1),
      (''Kr'', 24.5),
      (''Xe'', 32.7),
      (''Air'', 19.7),
      (''Ar'', 16.2),
      (''SF6'', 71.3),
      (''O2'', 16.3),
      (''CO2'', 26.9),
      (''CO'', 18.0),
      (''N2O'', 35.9),
      (''NH3'', 20.7),
      (''SO2'', 41.8),
      (''Cl2'', 38.4),
      (''Br2'', 69.0)]"

definition DiffGas_AB_K :: real where
  "DiffGas_AB_K = 0.0101325"

text \<open>
  The expression of line 81,
  \<open>K*( T**1.75 * (1/M[A] + 1/M[B])**(1/2) ) / (P*(SIGMA_v[A]**(1/3) + SIGMA_v[B]**(1/3))**2)\<close>,
  in Python's order: \<open>T**1.75\<close> first, then the subscripts of \<open>M\<close>, the product with
  \<open>K\<close>, then the whole divisor, and the division last.
\<close>

definition fuller_numerator :: "string \<Rightarrow> string \<Rightarrow> real \<Rightarrow> py_error + py_num" where
  "fuller_numerator A B T =
     and_then (float_pow T 1.75) (\<lambda>t.
     and_then (getitem DiffGas_AB_M A) (\<lambda>mA.
     and_then (float_truediv 1 mA) (\<lambda>iA.
     and_then (getitem DiffGas_AB_M B) (\<lambda>mB.
     and_then (float_truediv 1 mB) (\<lambda>iB.
     and_then (float_pow (iA + iB) (1 / 2)) (\<lambda>s.
       Inr (py_mul (PyFloat DiffGas_AB_K) (py_mul t s))))))))"

definition fuller_divisor :: "string \<Rightarrow> string \<Rightarrow> real \<Rightarrow> py_error + py_num" where
  "fuller_divisor A B P =
     and_then (getitem DiffGas_AB_SIGMA_v A) (\<lambda>vA.
     and_then (float_pow vA (1 / 3)) (\<lambda>cA.
     and_then (getitem DiffGas_AB_SIGMA_v B) (\<lambda>vB.
     and_then (float_pow vB (1 / 3)) (\<lambda>cB.
     and_then (py_pow (py_add cA cB) 2) (\<lambda>sq.
       Inr (py_mul (PyFloat P) sq))))))"

text \<open>
  \<open>DiffGas_AB(A, B, T, P)\<close> (lines 80-83): a \<open>KeyError\<close> becomes
  \<open>KeyError('Unsuported gas selected')\<close>; any other exception (the
  \<open>ZeroDivisionError\<close> of the division, the \<open>OverflowError\<close> of \<open>T**1.75\<close>) leaves the
  function.
\<close>

definition DiffGas_AB :: "string \<Rightarrow> string \<Rightarrow> real \<Rightarrow> real \<Rightarrow> py_error + py_num" where
  "DiffGas_AB A B T P =
     except_KeyError
       (and_then (fuller_numerator A B T) (\<lambda>n.
        and_then (fuller_divisor A B P) (\<lambda>d.
          py_truediv n d)))
       ''Unsuported gas selected''"

section \<open>Keys of the tables\<close>

text \<open>The alloys of the docstring of \<open>MetalDiff\<close>, in the order of the tables.\<close>

definition alloys :: "string list" where
  "alloys = [''SS304'', ''SS316'', ''Alpha-Fe'', ''75Pd-25Ag'', ''EUROFER97'', ''OPTIFER-IVb'']"

text \<open>The (alloy, isotope) pairs that a table of coefficients holds.\<close>

definition pair_keys :: "'v dict dict \<Rightarrow> (string \<times> string) list" where
  "pair_keys d = concat (map (\<lambda>(a, e). map (\<lambda>(q, v). (a, q)) e) d)"

section \<open>Evaluation lemmas\<close>


lemma and_then_Inl [simp]: "and_then (Inl e) f = Inl e"
  by (simp add: and_then_def)

lemma and_then_Inr [simp]: "and_then (Inr v) f = f v"
  by (simp add: and_then_def)

lemma getitem_Some [simp]: "map_of d k = Some v \<Longrightarrow> getitem d k = Inr v"
  by (simp add: getitem_def)

lemma getitem_None [simp]: "map_of d k = None \<Longrightarrow> getitem d k = Inl (KeyError k)"
  by (simp add: getitem_def)

lemma except_KeyError_simps [simp]:
  "except_KeyError (Inr v) msg = Inr v"
  "except_KeyError (Inl (KeyError k)) msg = Inl (KeyError msg)"
  "except_KeyError (Inl ZeroDivisionError) msg = Inl ZeroDivisionError"
  "except_KeyError (Inl ValueError) msg = Inl ValueError"
  "except_KeyError (Inl OverflowError) msg = Inl OverflowError"
  by (simp_all add: except_KeyError_def)

lemma keys_T_min: "map fst MetalDiff_T_min = alloys"
  by (simp add: MetalDiff_T_min_def alloys_def)

lemma keys_T_max: "map fst MetalDiff_T_max = alloys"
  by (simp add: MetalDiff_T_max_def alloys_def)

lemma keys_D0: "map fst MetalDiff_D0 = alloys"
  by (simp add: MetalDiff_D0_def alloys_def)

lemma keys_Ea: "map fst MetalDiff_Ea = alloys"
  by (simp add: MetalDiff_Ea_def alloys_def)

lemma map_of_Some_keys: "map_of d k = Some v \<Longrightarrow> k \<in> set (map fst d)"
  by (metis map_of_eq_None_iff option.distinct(1) set_map)

lemma keys_map_of_Some: "k \<in> set (map fst d) \<Longrightarrow> \<exists>v. map_of d k = Some v"
  by (metis map_of_eq_None_iff not_None_eq set_map)

lemma H_in_D0: "(A, d) \<in> set MetalDiff_D0 \<Longrightarrow> ''H'' \<in> set (map fst d)"
  unfolding MetalDiff_D0_def by auto

lemma H_in_Ea: "(A, d) \<in> set MetalDiff_Ea \<Longrightarrow> ''H'' \<in> set (map fst d)"
  unfolding MetalDiff_Ea_def by auto

lemma M_pos: "map_of MetalDiff_M Q = Some m \<Longrightarrow> 0 < m"
  unfolding MetalDiff_M_def by (drule map_of_SomeD) auto

lemma M_H: "map_of MetalDiff_M ''H'' = Some 1.00794"
  by (simp add: MetalDiff_M_def)

lemma gas_M_pos: "map_of DiffGas_AB_M Q = Some m \<Longrightarrow> 0 < m"
  unfolding DiffGas_AB_M_def by (drule map_of_SomeD) auto

lemma gas_SIGMA_pos: "map_of DiffGas_AB_SIGMA_v Q = Some m \<Longrightarrow> 0 < m"
  unfolding DiffGas_AB_SIGMA_v_def by (drule map_of_SomeD) auto

lemma DBL_MAX_ge: "10 ^ 300 \<le> DBL_MAX"
  unfolding DBL_MAX_def by simp

lemma DBL_MAX_lt: "DBL_MAX < 10 ^ 350"
  unfolding DBL_MAX_def by simp

lemma powr_7_4:
  assumes "0 < (x::real)"
  shows "(x ^ 4) powr (7 / 4) = x ^ 7"
proof -
  from assms have "(x ^ 4) powr (7 / 4) = (x powr 4) powr (7 / 4)"
    by (simp only: powr_numeral)
  also have "\<dots> = x powr 7"
    by (simp only: powr_powr) simp
  also from assms have "\<dots> = x ^ 7"
    by (simp only: powr_numeral)
  finally show ?thesis .
qed

lemma big_pow: "DBL_MAX < ((10::real) ^ 200) powr 1.75"
proof -
  have "((10::real) ^ 50) ^ 4 = 10 ^ 200" "((10::real) ^ 50) ^ 7 = 10 ^ 350" "(1.75::real) = 7 / 4"
    by simp_all
  with powr_7_4 [of "10 ^ 50"] have "((10::real) ^ 200) powr 1.75 = 10 ^ 350"
    by (simp only: zero_less_power zero_less_numeral)
  with DBL_MAX_lt show ?thesis by (simp only:)
qed

lemma powr_bound:
  assumes "0 < (x::real)" "x \<le> b" "1 \<le> b" "0 < (y::real)" "y \<le> 2"
  shows "x powr y \<le> b ^ 2"
proof (cases "x \<le> 1")
  case True
  with assms(1,4) have "x powr y \<le> 1" by (simp add: powr_le1)
  also from assms(3) have "1 \<le> b ^ 2" by simp
  finally show ?thesis .
next
  case False
  then have "1 \<le> x" by simp
  with assms(5) have "x powr y \<le> x powr 2" by (rule powr_mono)
  also from assms(1) have "x powr 2 = x ^ 2" by (simp add: powr_numeral)
  also from assms(1,2) have "x ^ 2 \<le> b ^ 2" by (simp add: power_mono)
  finally show ?thesis .
qed

lemma le_DBL_MAX: "x \<le> 10 ^ 300 \<Longrightarrow> x \<le> DBL_MAX"
  using DBL_MAX_ge by (rule order_trans [rotated])

lemma math_exp_nonpos: "x \<le> 0 \<Longrightarrow> math_exp x = Inr (exp x)"
proof -
  assume "x \<le> 0"
  then have "exp x \<le> 1" by simp
  also have "(1::real) \<le> 10 ^ 300" by simp
  finally have "exp x \<le> DBL_MAX" by (rule le_DBL_MAX)
  then show ?thesis by (simp add: math_exp_def)
qed

lemma Ea_pos: "(A, e) \<in> set MetalDiff_Ea \<Longrightarrow> (Q, v) \<in> set e \<Longrightarrow> 0 < v"
  unfolding MetalDiff_Ea_def by auto

lemma Ea_entry_pos:
  assumes "map_of MetalDiff_Ea A = Some eaA" "map_of eaA Q = Some ea"
  shows "0 < ea"
  using map_of_SomeD [OF assms(1)] map_of_SomeD [OF assms(2)] by (rule Ea_pos)

lemma gas_M_ge: "map_of DiffGas_AB_M Q = Some m \<Longrightarrow> 1 \<le> m"
  unfolding DiffGas_AB_M_def by (drule map_of_SomeD) auto

lemma gas_SIGMA_le: "map_of DiffGas_AB_SIGMA_v Q = Some m \<Longrightarrow> m \<le> 1000"
  unfolding DiffGas_AB_SIGMA_v_def by (drule map_of_SomeD) auto


lemma range_check_present:
  assumes "map_of MetalDiff_T_min A = Some lo" "map_of MetalDiff_T_max A = Some hi"
  shows "range_check A T W =
           Inr (if (lo > T \<or> hi < T) \<and> W
                then [[Str ''Warning: Temperature used out of the correlation range ['',
                       Num lo, Str ''-'', Num hi, Str '']K'']]
                else [])"
  using assms by (simp add: range_check_def out_of_range_def warning_line_def)

lemma range_check_absent:
  assumes "map_of MetalDiff_T_min A = None"
  shows "range_check A T W = Inl (KeyError ''Unsuported Alloy selected'')"
  using assms by (simp add: range_check_def out_of_range_def)

lemma range_table_entries:
  assumes "A \<in> set (map fst MetalDiff_T_min)"
  obtains lo hi where "map_of MetalDiff_T_min A = Some lo" "map_of MetalDiff_T_max A = Some hi"
proof -
  from keys_map_of_Some [OF assms] obtain lo
    where lo: "map_of MetalDiff_T_min A = Some lo" ..
  from assms have "A \<in> set (map fst MetalDiff_T_max)"
    by (simp only: keys_T_min keys_T_max)
  from keys_map_of_Some [OF this] obtain hi
    where hi: "map_of MetalDiff_T_max A = Some hi" ..
  from lo hi show ?thesis by (rule that)
qed

lemma range_check_ok:
  assumes "A \<in> set (map fst MetalDiff_T_min)"
  obtains out where "range_check A T W = Inr out" "length out \<le> 1" "\<not> W \<Longrightarrow> out = []"
proof -
  from assms obtain lo hi
    where "map_of MetalDiff_T_min A = Some lo" "map_of MetalDiff_T_max A = Some hi"
    by (rule range_table_entries)
  then have "range_check A T W =
           Inr (if (lo > T \<or> hi < T) \<and> W
                then [[Str ''Warning: Temperature used out of the correlation range ['',
                       Num lo, Str ''-'', Num hi, Str '']K'']]
                else [])"
    by (rule range_check_present)
  then show ?thesis using that by (cases "(lo > T \<or> hi < T) \<and> W") simp_all
qed

lemma H_entries:
  assumes "A \<in> set (map fst MetalDiff_T_min)"
  obtains d0A d0H eaA eaH where
    "map_of MetalDiff_D0 A = Some d0A" "map_of d0A ''H'' = Some d0H"
    "map_of MetalDiff_Ea A = Some eaA" "map_of eaA ''H'' = Some eaH"
proof -
  from assms have kd: "A \<in> set (map fst MetalDiff_D0)"
    by (simp only: keys_T_min keys_D0)
  from assms have ke: "A \<in> set (map fst MetalDiff_Ea)"
    by (simp only: keys_T_min keys_Ea)
  from keys_map_of_Some [OF kd] obtain d0A where d: "map_of MetalDiff_D0 A = Some d0A" ..
  from keys_map_of_Some [OF ke] obtain eaA where e: "map_of MetalDiff_Ea A = Some eaA" ..
  from d have "''H'' \<in> set (map fst d0A)" by (rule H_in_D0 [OF map_of_SomeD])
  from keys_map_of_Some [OF this] obtain d0H where dh: "map_of d0A ''H'' = Some d0H" ..
  from e have "''H'' \<in> set (map fst eaA)" by (rule H_in_Ea [OF map_of_SomeD])
  from keys_map_of_Some [OF this] obtain eaH where eh: "map_of eaA ''H'' = Some eaH" ..
  from d dh e eh show ?thesis by (rule that)
qed

lemma arrhenius_present:
  assumes "map_of MetalDiff_D0 A = Some d0A" "map_of d0A Q = Some d0"
      and "map_of MetalDiff_Ea A = Some eaA" "map_of eaA Q = Some ea" "0 < T"
  shows "arrhenius A Q T = Inr (d0 * exp (- ea * 1000 / (8.314 * T)))"
proof -
  from assms(3,4) have "0 < ea" by (rule Ea_entry_pos)
  with assms(5) have "- ea * 1000 / (8.314 * T) \<le> 0"
    by (simp add: divide_nonpos_pos)
  then have "math_exp (- ea * 1000 / (8.314 * T)) = Inr (exp (- ea * 1000 / (8.314 * T)))"
    by (rule math_exp_nonpos)
  moreover from assms(5) have "float_truediv (- ea * 1000) (MetalDiff_R * T)
      = Inr (- ea * 1000 / (8.314 * T))"
    by (simp add: float_truediv_def MetalDiff_R_def)
  ultimately show ?thesis
    unfolding arrhenius_def
    by (simp only: getitem_Some [OF assms(1)] getitem_Some [OF assms(2)]
        getitem_Some [OF assms(3)] getitem_Some [OF assms(4)] and_then_Inr)
qed

lemma arrhenius_zero:
  assumes "map_of MetalDiff_D0 A = Some d0A" "map_of d0A Q = Some d0"
      and "map_of MetalDiff_Ea A = Some eaA" "map_of eaA Q = Some ea"
  shows "arrhenius A Q 0 = Inl ZeroDivisionError"
  using assms by (simp add: arrhenius_def float_truediv_def)

lemma arrhenius_no_D0:
  assumes "map_of MetalDiff_D0 A = Some d0A" "map_of d0A Q = None"
  shows "arrhenius A Q T = Inl (KeyError Q)"
  using assms by (simp add: arrhenius_def)

lemma arrhenius_no_Ea:
  assumes "map_of MetalDiff_D0 A = Some d0A" "map_of d0A Q = Some d0"
      and "map_of MetalDiff_Ea A = Some eaA" "map_of eaA Q = None"
  shows "arrhenius A Q T = Inl (KeyError Q)"
  using assms by (simp add: arrhenius_def)

lemma arrhenius_zero_fails: "\<exists>e. arrhenius A Q 0 = Inl e"
  by (simp add: arrhenius_def float_truediv_def and_then_def getitem_def
      split: option.splits sum.splits)

section \<open>Claims on \<open>MetalDiff\<close>\<close>


text \<open>
  C8. The static tables of \<open>MetalDiff\<close>: the pre-exponential table \<open>D0\<close> and the
  activation-energy table \<open>Ea\<close> hold the same (alloy, isotope) pairs, and every alloy
  of \<open>D0\<close> or \<open>Ea\<close> is a key of both \<open>T_min\<close> and \<open>T_max\<close>.
\<close>

theorem tables_consistent:
  "set (pair_keys MetalDiff_D0) = set (pair_keys MetalDiff_Ea) \<and>
   set (map fst MetalDiff_D0) \<union> set (map fst MetalDiff_Ea)
     \<subseteq> set (map fst MetalDiff_T_min) \<inter> set (map fst MetalDiff_T_max)"
proof
  show "set (pair_keys MetalDiff_D0) = set (pair_keys MetalDiff_Ea)"
    by (simp add: pair_keys_def MetalDiff_D0_def MetalDiff_Ea_def)
  show "set (map fst MetalDiff_D0) \<union> set (map fst MetalDiff_Ea)
          \<subseteq> set (map fst MetalDiff_T_min) \<inter> set (map fst MetalDiff_T_max)"
    by (simp only: keys_D0 keys_Ea keys_T_min keys_T_max) simp
qed

text \<open>
  C4. For an alloy that is no key of the temperature-range table, whatever the isotope,
  the temperature and the flag \<open>W\<close>, \<open>MetalDiff\<close> raises
  \<open>KeyError('Unsuported Alloy selected')\<close>: nothing is printed, no coefficient is
  looked up and no value is returned.
\<close>

theorem MetalDiff_unsupported_alloy:
  assumes "A \<notin> set (map fst MetalDiff_T_min)"
  shows "MetalDiff A Q T W = ([], Inl (KeyError ''Unsuported Alloy selected''))"
proof -
  from assms have "map_of MetalDiff_T_min A = None"
    by (simp add: map_of_eq_None_iff)
  then have "range_check A T W = Inl (KeyError ''Unsuported Alloy selected'')"
    by (rule range_check_absent)
  then show ?thesis by (simp add: MetalDiff_def)
qed

theorem MetalDiff_unsupported_alloy_witness:
  "''UnknownAlloy'' \<notin> set (map fst MetalDiff_T_min) \<and>
   MetalDiff ''UnknownAlloy'' ''H'' 500 True = ([], Inl (KeyError ''Unsuported Alloy selected''))"
proof -
  have h: "''UnknownAlloy'' \<notin> set (map fst MetalDiff_T_min)"
    by (simp add: MetalDiff_T_min_def)
  from h MetalDiff_unsupported_alloy [OF h] show ?thesis by (rule conjI)
qed

text \<open>
  C1. For an (alloy, isotope) pair with an entry in both \<open>D0\<close> and \<open>Ea\<close> and a
  temperature \<open>T > 0\<close>, \<open>MetalDiff\<close> returns
  \<open>D0[A][Q] * exp(-Ea[A][Q]*1000 / (8.314*T))\<close>, inside the validated range or not,
  with \<open>W\<close> set or not; at most one line, the warning, is printed.
\<close>

theorem MetalDiff_direct:
  assumes "map_of MetalDiff_D0 A = Some d0A" "map_of d0A Q = Some d0"
      and "map_of MetalDiff_Ea A = Some eaA" "map_of eaA Q = Some ea"
      and "0 < T"
  shows "snd (MetalDiff A Q T W) = Inr (d0 * exp (- ea * 1000 / (8.314 * T))) \<and>
         length (fst (MetalDiff A Q T W)) \<le> 1"
proof -
  from assms(1) have "A \<in> set (map fst MetalDiff_D0)" by (rule map_of_Some_keys)
  then have "A \<in> set (map fst MetalDiff_T_min)" by (simp only: keys_D0 keys_T_min)
  then obtain out where out: "range_check A T W = Inr out" "length out \<le> 1"
    by (rule range_check_ok)
  from assms have "arrhenius A Q T = Inr (d0 * exp (- ea * 1000 / (8.314 * T)))"
    by (intro arrhenius_present) simp_all
  with out show ?thesis by (simp add: MetalDiff_def)
qed

theorem MetalDiff_direct_witness:
  "map_of MetalDiff_D0 ''SS304'' = Some [(''H'', 1.22 / 10 ^ 6)] \<and>
   map_of [(''H'', 1.22 / 10 ^ 6 :: real)] ''H'' = Some (1.22 / 10 ^ 6) \<and>
   map_of MetalDiff_Ea ''SS304'' = Some [(''H'', 54.85)] \<and>
   map_of [(''H'', 54.85 :: real)] ''H'' = Some 54.85 \<and>
   (0 :: real) < 1000 \<and>
   snd (MetalDiff ''SS304'' ''H'' 1000 True)
     = Inr (1.22 / 10 ^ 6 * exp (- 54.85 * 1000 / (8.314 * 1000))) \<and>
   length (fst (MetalDiff ''SS304'' ''H'' 1000 True)) \<le> 1"
proof -
  have h1: "map_of MetalDiff_D0 ''SS304'' = Some [(''H'', 1.22 / 10 ^ 6)]"
    by (simp add: MetalDiff_D0_def)
  have h2: "map_of [(''H'', 1.22 / 10 ^ 6 :: real)] ''H'' = Some (1.22 / 10 ^ 6)"
    by simp
  have h3: "map_of MetalDiff_Ea ''SS304'' = Some [(''H'', 54.85)]"
    by (simp add: MetalDiff_Ea_def)
  have h4: "map_of [(''H'', 54.85 :: real)] ''H'' = Some 54.85"
    by simp
  have h5: "(0 :: real) < 1000"
    by simp
  note r = MetalDiff_direct [OF h1 h2 h3 h4 h5, where W = True]
  from h1 h2 h3 h4 h5 r show ?thesis by simp
qed

section \<open>The fallback stage\<close>


lemma graham_present:
  assumes "map_of MetalDiff_D0 A = Some d0A" "map_of d0A ''H'' = Some d0H"
      and "map_of MetalDiff_Ea A = Some eaA" "map_of eaA ''H'' = Some eaH"
      and "map_of MetalDiff_M Q = Some mQ" "0 < T"
  shows "graham A Q T = Inr (d0H * exp (- eaH * 1000 / (8.314 * T)) * sqrt (1.00794 / mQ))"
proof -
  from assms have a: "arrhenius A ''H'' T = Inr (d0H * exp (- eaH * 1000 / (8.314 * T)))"
    by (intro arrhenius_present) simp_all
  from assms(5) have "0 < mQ" by (rule M_pos)
  then have "mQ \<noteq> 0" "\<not> 1.00794 / mQ < 0" by simp_all
  moreover have "getitem MetalDiff_M ''H'' = Inr 1.00794"
    by (rule getitem_Some [OF M_H])
  moreover from assms(5) have "getitem MetalDiff_M Q = Inr mQ"
    by (rule getitem_Some)
  ultimately show ?thesis using a
    by (simp add: graham_def float_truediv_def math_sqrt_def)
qed

lemma graham_no_weight:
  assumes "map_of MetalDiff_D0 A = Some d0A" "map_of d0A ''H'' = Some d0H"
      and "map_of MetalDiff_Ea A = Some eaA" "map_of eaA ''H'' = Some eaH"
      and "map_of MetalDiff_M Q = None" "0 < T"
  shows "graham A Q T = Inl (KeyError ''Unsuported Isotope selected'')"
proof -
  from assms have a: "arrhenius A ''H'' T = Inr (d0H * exp (- eaH * 1000 / (8.314 * T)))"
    by (intro arrhenius_present) simp_all
  moreover have "getitem MetalDiff_M ''H'' = Inr 1.00794"
    by (rule getitem_Some [OF M_H])
  moreover from assms(5) have "getitem MetalDiff_M Q = Inl (KeyError Q)"
    by (rule getitem_None)
  ultimately show ?thesis by (simp add: graham_def)
qed

lemma graham_zero:
  assumes "map_of MetalDiff_D0 A = Some d0A" "map_of d0A ''H'' = Some d0H"
      and "map_of MetalDiff_Ea A = Some eaA" "map_of eaA ''H'' = Some eaH"
  shows "graham A Q 0 = Inl ZeroDivisionError"
proof -
  from assms have "arrhenius A ''H'' 0 = Inl ZeroDivisionError" by (rule arrhenius_zero)
  then show ?thesis by (simp add: graham_def)
qed

lemma except_KeyError_cases:
  "except_KeyError r msg = Inl (KeyError k) \<Longrightarrow> k = msg"
  by (cases r) (auto simp: except_KeyError_def split: py_error.splits)

lemma graham_no_alloy_error: "graham A Q T \<noteq> Inl (KeyError ''Unsuported Alloy selected'')"
proof
  assume "graham A Q T = Inl (KeyError ''Unsuported Alloy selected'')"
  then have "''Unsuported Alloy selected'' = ''Unsuported Isotope selected''"
    unfolding graham_def by (rule except_KeyError_cases)
  then show False by simp
qed

lemma pair_keys_iff:
  "(a, q) \<in> set (pair_keys d) \<longleftrightarrow> (\<exists>e. (a, e) \<in> set d \<and> q \<in> set (map fst e))"
  by (force simp: pair_keys_def)

section \<open>Tabulated pairs\<close>


lemma not_pair_key:
  assumes "(A, Q) \<notin> set (pair_keys d)" "map_of d A = Some e"
  shows "map_of e Q = None"
proof -
  from assms(2) have "(A, e) \<in> set d" by (rule map_of_SomeD)
  with assms(1) have "Q \<notin> set (map fst e)" unfolding pair_keys_iff by simp
  then show ?thesis by (simp add: map_of_eq_None_iff)
qed

lemma D0_pairs:
  assumes "(A, Q) \<in> set (pair_keys MetalDiff_D0)"
  shows "(A, Q) \<in> {(''SS304'', ''H''), (''SS316'', ''H''), (''SS316'', ''D''),
     (''Alpha-Fe'', ''H''), (''75Pd-25Ag'', ''H''), (''75Pd-25Ag'', ''D''),
     (''EUROFER97'', ''H''), (''EUROFER97'', ''D''),
     (''OPTIFER-IVb'', ''H''), (''OPTIFER-IVb'', ''D''), (''OPTIFER-IVb'', ''T'')}"
  using assms by (simp add: pair_keys_def MetalDiff_D0_def)

lemma arrhenius_zero_tabulated:
  assumes "(A, Q) \<in> set (pair_keys MetalDiff_D0)"
  shows "arrhenius A Q 0 = Inl ZeroDivisionError"
  using D0_pairs [OF assms]
  by (auto simp: arrhenius_def MetalDiff_D0_def MetalDiff_Ea_def getitem_def float_truediv_def)

section \<open>Fallback value and warning flag\<close>


text \<open>
  C3. For an alloy with an \<open>'H'\<close> entry in \<open>D0\<close> and \<open>Ea\<close>, an isotope \<open>Q\<close> with no
  entry for that alloy in \<open>D0\<close> and \<open>Ea\<close> but with an atomic weight in \<open>M\<close>, and
  \<open>T > 0\<close>, \<open>MetalDiff\<close> returns \<open>D_H * sqrt(M['H'] / M[Q])\<close> with
  \<open>D_H = D0[A]['H'] * exp(-Ea[A]['H']*1000 / (8.314*T))\<close> and \<open>M['H'] = 1.00794\<close>.
\<close>

theorem MetalDiff_graham:
  assumes "map_of MetalDiff_D0 A = Some d0A" "map_of d0A ''H'' = Some d0H"
      and "map_of MetalDiff_Ea A = Some eaA" "map_of eaA ''H'' = Some eaH"
      and "map_of d0A Q = None" "map_of eaA Q = None"
      and "map_of MetalDiff_M Q = Some mQ"
      and "0 < T"
  shows "snd (MetalDiff A Q T W)
           = Inr (d0H * exp (- eaH * 1000 / (8.314 * T)) * sqrt (1.00794 / mQ))"
proof -
  from assms(1) have "A \<in> set (map fst MetalDiff_D0)" by (rule map_of_Some_keys)
  then have "A \<in> set (map fst MetalDiff_T_min)" by (simp only: keys_D0 keys_T_min)
  then obtain out where out: "range_check A T W = Inr out"
    by (rule range_check_ok)
  from assms(1,5) have direct: "arrhenius A Q T = Inl (KeyError Q)"
    by (rule arrhenius_no_D0)
  from assms have
    "graham A Q T = Inr (d0H * exp (- eaH * 1000 / (8.314 * T)) * sqrt (1.00794 / mQ))"
    by (intro graham_present) simp_all
  with out direct show ?thesis by (simp add: MetalDiff_def)
qed

theorem MetalDiff_graham_witness:
  "map_of MetalDiff_D0 ''SS304'' = Some [(''H'', 1.22 / 10 ^ 6)] \<and>
   map_of [(''H'', 1.22 / 10 ^ 6 :: real)] ''H'' = Some (1.22 / 10 ^ 6) \<and>
   map_of MetalDiff_Ea ''SS304'' = Some [(''H'', 54.85)] \<and>
   map_of [(''H'', 54.85 :: real)] ''H'' = Some 54.85 \<and>
   map_of [(''H'', 1.22 / 10 ^ 6 :: real)] ''D'' = None \<and>
   map_of [(''H'', 54.85 :: real)] ''D'' = None \<and>
   map_of MetalDiff_M ''D'' = Some 2.01410 \<and>
   (0 :: real) < 700 \<and>
   snd (MetalDiff ''SS304'' ''D'' 700 True)
     = Inr (1.22 / 10 ^ 6 * exp (- 54.85 * 1000 / (8.314 * 700)) * sqrt (1.00794 / 2.01410))"
proof -
  have h1: "map_of MetalDiff_D0 ''SS304'' = Some [(''H'', 1.22 / 10 ^ 6)]"
    by (simp add: MetalDiff_D0_def)
  have h2: "map_of [(''H'', 1.22 / 10 ^ 6 :: real)] ''H'' = Some (1.22 / 10 ^ 6)"
    by simp
  have h3: "map_of MetalDiff_Ea ''SS304'' = Some [(''H'', 54.85)]"
    by (simp add: MetalDiff_Ea_def)
  have h4: "map_of [(''H'', 54.85 :: real)] ''H'' = Some 54.85"
    by simp
  have h5: "map_of [(''H'', 1.22 / 10 ^ 6 :: real)] ''D'' = None"
    by simp
  have h6: "map_of [(''H'', 54.85 :: real)] ''D'' = None"
    by simp
  have h7: "map_of MetalDiff_M ''D'' = Some 2.01410"
    by (simp add: MetalDiff_M_def)
  have h8: "(0 :: real) < 700"
    by simp
  note r = MetalDiff_graham [OF h1 h2 h3 h4 h5 h6 h7 h8, where W = True]
  from h1 h2 h3 h4 h5 h6 h7 h8 r show ?thesis by simp
qed

text \<open>
  C7. For an alloy of the range table, the outcome of \<open>MetalDiff\<close> (the value returned or
  the exception raised) is that of the direct stage followed by the fallback stage, in
  which neither \<open>W\<close> nor \<open>T_min\<close> or \<open>T_max\<close> occurs: it is the same with \<open>W\<close> true and
  false, and inside and outside the validated range. Only the printed lines depend on
  them, and nothing is printed when \<open>W\<close> is false.
\<close>

theorem MetalDiff_warning_only:
  assumes "A \<in> set (map fst MetalDiff_T_min)"
  shows "snd (MetalDiff A Q T W)
           = (case arrhenius A Q T of Inr D \<Rightarrow> Inr D | Inl e \<Rightarrow> graham A Q T) \<and>
         snd (MetalDiff A Q T True) = snd (MetalDiff A Q T False) \<and>
         fst (MetalDiff A Q T False) = []"
proof -
  have res: "snd (MetalDiff A Q T V)
      = (case arrhenius A Q T of Inr D \<Rightarrow> Inr D | Inl e \<Rightarrow> graham A Q T)" for V
  proof -
    from assms obtain out where "range_check A T V = Inr out"
      by (rule range_check_ok)
    then show ?thesis by (simp add: MetalDiff_def split: sum.splits)
  qed
  have "fst (MetalDiff A Q T False) = []"
  proof (rule range_check_ok [OF assms, where T = T and W = False])
    fix out assume "range_check A T False = Inr out" "\<not> False \<Longrightarrow> out = []"
    then show ?thesis by (simp add: MetalDiff_def split: sum.splits)
  qed
  with res [of W] res [of True] res [of False] show ?thesis by simp
qed

theorem MetalDiff_warning_only_witness:
  "''SS304'' \<in> set (map fst MetalDiff_T_min) \<and>
   snd (MetalDiff ''SS304'' ''H'' 1000 True)
     = (case arrhenius ''SS304'' ''H'' 1000 of Inr D \<Rightarrow> Inr D
        | Inl e \<Rightarrow> graham ''SS304'' ''H'' 1000) \<and>
   snd (MetalDiff ''SS304'' ''H'' 1000 True) = snd (MetalDiff ''SS304'' ''H'' 1000 False) \<and>
   fst (MetalDiff ''SS304'' ''H'' 1000 False) = [] \<and>
   fst (MetalDiff ''SS304'' ''H'' 1000 True)
     = [[Str ''Warning: Temperature used out of the correlation range ['',
         Num 645, Str ''-'', Num 945, Str '']K'']]"
proof -
  have h: "''SS304'' \<in> set (map fst MetalDiff_T_min)"
    by (simp add: MetalDiff_T_min_def)
  have lo: "map_of MetalDiff_T_min ''SS304'' = Some 645"
    by (simp add: MetalDiff_T_min_def)
  have hi: "map_of MetalDiff_T_max ''SS304'' = Some 945"
    by (simp add: MetalDiff_T_max_def)
  have f: "fst (MetalDiff ''SS304'' ''H'' 1000 True)
     = [[Str ''Warning: Temperature used out of the correlation range ['',
         Num 645, Str ''-'', Num 945, Str '']K'']]"
    by (simp add: MetalDiff_def range_check_present [OF lo hi] split: sum.splits)
  note r = MetalDiff_warning_only [OF h, of "''H''" 1000 True]
  show ?thesis
    apply (intro conjI)
        apply (rule h)
       apply (rule r [THEN conjunct1])
      apply (rule r [THEN conjunct2, THEN conjunct1])
     apply (rule r [THEN conjunct2, THEN conjunct2])
    apply (rule f)
    done
qed

section \<open>Zero temperature and unsupported isotopes\<close>


text \<open>
  C9. For an alloy of the range table and \<open>T = 0\<close>, \<open>MetalDiff\<close> raises
  \<open>ZeroDivisionError\<close>, whatever the isotope and the flag: the direct stage fails (for a
  tabulated pair on the division by \<open>R*T\<close>), its bare \<open>except\<close> swallows the
  exception, and the fallback stage divides by \<open>R*T\<close> again inside a \<open>try\<close> that only
  catches \<open>KeyError\<close>.
\<close>

theorem MetalDiff_zero_temperature:
  assumes "A \<in> set (map fst MetalDiff_T_min)"
  shows "snd (MetalDiff A Q 0 W) = Inl ZeroDivisionError \<and>
         graham A Q 0 = Inl ZeroDivisionError \<and>
         (\<exists>e. arrhenius A Q 0 = Inl e) \<and>
         ((A, Q) \<in> set (pair_keys MetalDiff_D0) \<longrightarrow> arrhenius A Q 0 = Inl ZeroDivisionError)"
proof -
  from assms obtain d0A d0H eaA eaH where
    "map_of MetalDiff_D0 A = Some d0A" "map_of d0A ''H'' = Some d0H"
    "map_of MetalDiff_Ea A = Some eaA" "map_of eaA ''H'' = Some eaH"
    by (rule H_entries)
  then have fallback: "graham A Q 0 = Inl ZeroDivisionError"
    by (rule graham_zero)
  obtain e where direct: "arrhenius A Q 0 = Inl e"
    using arrhenius_zero_fails [of A Q] ..
  have "snd (MetalDiff A Q 0 W) = Inl ZeroDivisionError"
  proof (rule range_check_ok [OF assms, where T = 0 and W = W])
    fix out assume "range_check A 0 W = Inr out"
    with direct fallback show ?thesis by (simp add: MetalDiff_def)
  qed
  moreover have "(A, Q) \<in> set (pair_keys MetalDiff_D0)
      \<longrightarrow> arrhenius A Q 0 = Inl ZeroDivisionError"
    by (rule impI) (rule arrhenius_zero_tabulated)
  moreover have "\<exists>e. arrhenius A Q 0 = Inl e"
    by (rule arrhenius_zero_fails)
  ultimately show ?thesis using fallback by (intro conjI)
qed

theorem MetalDiff_zero_temperature_witness:
  "''SS316'' \<in> set (map fst MetalDiff_T_min) \<and>
   (''SS316'', ''H'') \<in> set (pair_keys MetalDiff_D0) \<and>
   snd (MetalDiff ''SS316'' ''H'' 0 True) = Inl ZeroDivisionError \<and>
   graham ''SS316'' ''H'' 0 = Inl ZeroDivisionError \<and>
   arrhenius ''SS316'' ''H'' 0 = Inl ZeroDivisionError"
proof -
  have h: "''SS316'' \<in> set (map fst MetalDiff_T_min)"
    by (simp add: MetalDiff_T_min_def)
  have k: "(''SS316'', ''H'') \<in> set (pair_keys MetalDiff_D0)"
    by (simp add: pair_keys_def MetalDiff_D0_def)
  note r = MetalDiff_zero_temperature [OF h, of "''H''" True]
  show ?thesis
    apply (intro conjI)
        apply (rule h)
       apply (rule k)
      apply (rule r [THEN conjunct1])
     apply (rule r [THEN conjunct2, THEN conjunct1])
    apply (rule r [THEN conjunct2, THEN conjunct2, THEN conjunct2, THEN mp, OF k])
    done
qed

text \<open>
  C5, as stated, without a condition on the temperature: at \<open>T = 0\<close> an isotope that is
  in no table gives \<open>ZeroDivisionError\<close>, not the isotope error, since the fallback
  stage divides by \<open>R*T\<close> before it looks \<open>M[Q]\<close> up.
\<close>

theorem MetalDiff_unsupported_isotope_counterexample:
  "''SS304'' \<in> set (map fst MetalDiff_T_min) \<and>
   (''SS304'', ''Xx'') \<notin> set (pair_keys MetalDiff_D0) \<and>
   (''SS304'', ''Xx'') \<notin> set (pair_keys MetalDiff_Ea) \<and>
   ''Xx'' \<notin> set (map fst MetalDiff_M) \<and>
   snd (MetalDiff ''SS304'' ''Xx'' 0 True) = Inl ZeroDivisionError \<and>
   snd (MetalDiff ''SS304'' ''Xx'' 0 True) \<noteq> Inl (KeyError ''Unsuported Isotope selected'')"
proof -
  have lo: "map_of MetalDiff_T_min ''SS304'' = Some 645"
    by (simp add: MetalDiff_T_min_def)
  have hi: "map_of MetalDiff_T_max ''SS304'' = Some 945"
    by (simp add: MetalDiff_T_max_def)
  have direct: "arrhenius ''SS304'' ''Xx'' 0 = Inl (KeyError ''Xx'')"
    by (simp add: arrhenius_def getitem_def MetalDiff_D0_def)
  have fallback: "graham ''SS304'' ''Xx'' 0 = Inl ZeroDivisionError"
    by (simp add: graham_def arrhenius_def getitem_def MetalDiff_D0_def MetalDiff_Ea_def
        float_truediv_def)
  have r: "snd (MetalDiff ''SS304'' ''Xx'' 0 True) = Inl ZeroDivisionError"
    by (simp add: MetalDiff_def range_check_present [OF lo hi] direct fallback)
  show ?thesis
    by (simp add: r MetalDiff_T_min_def MetalDiff_M_def pair_keys_def MetalDiff_D0_def
        MetalDiff_Ea_def)
qed

text \<open>
  C5, amended. For an alloy of the range table, an isotope \<open>Q\<close> with no entry for that
  alloy in \<open>D0\<close> and \<open>Ea\<close> and no atomic weight in \<open>M\<close>, and \<open>T > 0\<close>, \<open>MetalDiff\<close>
  raises \<open>KeyError('Unsuported Isotope selected')\<close>. And for every call,
  \<open>KeyError('Unsuported Alloy selected')\<close> is raised exactly when the alloy is no key of
  the range table: the direct and fallback stages never raise it.
\<close>

theorem MetalDiff_unsupported_isotope:
  assumes "A \<in> set (map fst MetalDiff_T_min)"
      and "(A, Q) \<notin> set (pair_keys MetalDiff_D0)" "(A, Q) \<notin> set (pair_keys MetalDiff_Ea)"
      and "Q \<notin> set (map fst MetalDiff_M)"
      and "0 < T"
  shows "snd (MetalDiff A Q T W) = Inl (KeyError ''Unsuported Isotope selected'') \<and>
         (snd (MetalDiff B R U V) = Inl (KeyError ''Unsuported Alloy selected'')
            \<longleftrightarrow> B \<notin> set (map fst MetalDiff_T_min))"
proof
  from assms(1) obtain d0A d0H eaA eaH where
    H: "map_of MetalDiff_D0 A = Some d0A" "map_of d0A ''H'' = Some d0H"
       "map_of MetalDiff_Ea A = Some eaA" "map_of eaA ''H'' = Some eaH"
    by (rule H_entries)
  from assms(2) H(1) have "map_of d0A Q = None" by (rule not_pair_key)
  with H(1) have direct: "arrhenius A Q T = Inl (KeyError Q)" by (rule arrhenius_no_D0)
  from assms(4) have nw: "map_of MetalDiff_M Q = None" by (simp add: map_of_eq_None_iff)
  have fallback: "graham A Q T = Inl (KeyError ''Unsuported Isotope selected'')"
    by (rule graham_no_weight [OF H nw assms(5)])
  show "snd (MetalDiff A Q T W) = Inl (KeyError ''Unsuported Isotope selected'')"
  proof (rule range_check_ok [OF assms(1), where T = T and W = W])
    fix out assume "range_check A T W = Inr out"
    with direct fallback show ?thesis by (simp add: MetalDiff_def)
  qed
next
  show "snd (MetalDiff B R U V) = Inl (KeyError ''Unsuported Alloy selected'')
          \<longleftrightarrow> B \<notin> set (map fst MetalDiff_T_min)"
  proof (cases "B \<in> set (map fst MetalDiff_T_min)")
    case True
    have "snd (MetalDiff B R U V) \<noteq> Inl (KeyError ''Unsuported Alloy selected'')"
    proof (rule range_check_ok [OF True, where T = U and W = V])
      fix out assume "range_check B U V = Inr out"
      then show ?thesis
        by (simp add: MetalDiff_def graham_no_alloy_error split: sum.splits)
    qed
    with True show ?thesis by simp
  next
    case False
    then have "map_of MetalDiff_T_min B = None" by (simp add: map_of_eq_None_iff)
    then have "range_check B U V = Inl (KeyError ''Unsuported Alloy selected'')"
      by (rule range_check_absent)
    with False show ?thesis by (simp add: MetalDiff_def)
  qed
qed

theorem MetalDiff_unsupported_isotope_witness:
  "''SS304'' \<in> set (map fst MetalDiff_T_min) \<and>
   (''SS304'', ''Xx'') \<notin> set (pair_keys MetalDiff_D0) \<and>
   (''SS304'', ''Xx'') \<notin> set (pair_keys MetalDiff_Ea) \<and>
   ''Xx'' \<notin> set (map fst MetalDiff_M) \<and>
   (0 :: real) < 700 \<and>
   snd (MetalDiff ''SS304'' ''Xx'' 700 True) = Inl (KeyError ''Unsuported Isotope selected'')"
proof -
  have h1: "''SS304'' \<in> set (map fst MetalDiff_T_min)"
    by (simp add: MetalDiff_T_min_def)
  have h2: "(''SS304'', ''Xx'') \<notin> set (pair_keys MetalDiff_D0)"
    by (simp add: pair_keys_def MetalDiff_D0_def)
  have h3: "(''SS304'', ''Xx'') \<notin> set (pair_keys MetalDiff_Ea)"
    by (simp add: pair_keys_def MetalDiff_Ea_def)
  have h4: "''Xx'' \<notin> set (map fst MetalDiff_M)"
    by (simp add: MetalDiff_M_def)
  have h5: "(0 :: real) < 700"
    by simp
  note r = MetalDiff_unsupported_isotope [OF h1 h2 h3 h4 h5, where W = True]
  show ?thesis
    apply (intro conjI)
         apply (rule h1)
        apply (rule h2)
       apply (rule h3)
      apply (rule h4)
     apply (rule h5)
    apply (rule r [THEN conjunct1])
    done
qed

section \<open>Evaluation of the gas expression\<close>


lemma floor_7_4: "\<lfloor>1.75 :: real\<rfloor> = 1"
  by (simp add: floor_eq_iff)

lemma float_pow_175:
  "float_pow T 1.75 =
     (if DBL_MAX < \<bar>T\<bar> powr 1.75 then Inl OverflowError
      else Inr (if T < 0 then PyComplex (rcis (\<bar>T\<bar> powr 1.75) (pi * 1.75))
                else PyFloat (T powr 1.75)))"
proof -
  have frac: "(1.75 :: real) \<noteq> of_int \<lfloor>1.75 :: real\<rfloor>"
    unfolding floor_7_4 by simp
  have nz: "(1.75 :: real) \<noteq> 0" "\<not> (1.75 :: real) < 0" by simp_all
  have "(0 :: real) \<le> 10 ^ 300" by simp
  then have zero: "\<not> DBL_MAX < 0" using le_DBL_MAX [of 0] by simp
  consider "T = 0" | "T < 0" | "0 < T" by linarith
  then show ?thesis
  proof cases
    case 1
    with zero show ?thesis unfolding float_pow_def by (simp only: nz) simp
  next
    case 2
    with frac show ?thesis unfolding float_pow_def by (simp only: nz) simp
  next
    case 3
    then show ?thesis unfolding float_pow_def by (simp only: nz) simp
  qed
qed

lemma float_pow_pos:
  "0 < x \<Longrightarrow> y \<noteq> 0 \<Longrightarrow> x powr y \<le> DBL_MAX \<Longrightarrow> float_pow x y = Inr (PyFloat (x powr y))"
  by (simp add: float_pow_def)

lemma float_pow_bounded:
  assumes "0 < x" "x \<le> b" "1 \<le> b" "b ^ 2 \<le> 10 ^ 300" "0 < y" "y \<le> 2"
  shows "float_pow x y = Inr (PyFloat (x powr y))"
proof -
  from assms(1,2,3,5,6) have "x powr y \<le> b ^ 2" by (rule powr_bound)
  also note assms(4)
  finally have "x powr y \<le> DBL_MAX" by (rule le_DBL_MAX)
  with assms(1,5) show ?thesis by (intro float_pow_pos) simp_all
qed

lemma inverse_sum_le_2: "1 \<le> (a::real) \<Longrightarrow> 1 \<le> b \<Longrightarrow> 1 / a + 1 / b \<le> 2"
proof -
  assume "1 \<le> a" "1 \<le> b"
  then have "1 / a \<le> 1" "1 / b \<le> 1" by (simp_all add: field_simps)
  then show ?thesis by linarith
qed

lemma float_truediv_nonzero: "y \<noteq> 0 \<Longrightarrow> float_truediv x y = Inr (x / y)"
  by (simp add: float_truediv_def)

lemma fuller_numerator_present:
  assumes "map_of DiffGas_AB_M A = Some mA" "map_of DiffGas_AB_M B = Some mB"
      and "\<bar>T\<bar> powr 1.75 \<le> DBL_MAX"
  shows "fuller_numerator A B T =
     Inr (py_mul (PyFloat 0.0101325)
            (py_mul (if T < 0 then PyComplex (rcis (\<bar>T\<bar> powr 1.75) (pi * 1.75))
                     else PyFloat (T powr 1.75))
                    (PyFloat ((1 / mA + 1 / mB) powr (1 / 2)))))"
proof -
  from assms(1) have a: "1 \<le> mA" by (rule gas_M_ge)
  from assms(2) have b: "1 \<le> mB" by (rule gas_M_ge)
  from a have ia: "float_truediv 1 mA = Inr (1 / mA)"
    by (intro float_truediv_nonzero) simp
  from b have ib: "float_truediv 1 mB = Inr (1 / mB)"
    by (intro float_truediv_nonzero) simp
  from a b have "0 < 1 / mA + 1 / mB"
    by (simp add: add_pos_pos)
  moreover from a b have "1 / mA + 1 / mB \<le> 2"
    by (rule inverse_sum_le_2)
  ultimately have s: "float_pow (1 / mA + 1 / mB) (1 / 2)
      = Inr (PyFloat ((1 / mA + 1 / mB) powr (1 / 2)))"
    by (rule float_pow_bounded) simp_all
  from assms(3) have t: "float_pow T 1.75 =
      Inr (if T < 0 then PyComplex (rcis (\<bar>T\<bar> powr 1.75) (pi * 1.75))
           else PyFloat (T powr 1.75))"
    unfolding float_pow_175 by (simp only: not_less [symmetric] if_False)
  show ?thesis
    unfolding fuller_numerator_def DiffGas_AB_K_def
    by (simp only: t getitem_Some [OF assms(1)] getitem_Some [OF assms(2)]
        ia ib s and_then_Inr)
qed

lemma fuller_numerator_overflow:
  assumes "DBL_MAX < \<bar>T\<bar> powr 1.75"
  shows "fuller_numerator A B T = Inl OverflowError"
proof -
  from assms have "float_pow T 1.75 = Inl OverflowError"
    unfolding float_pow_175 by (simp only: if_True)
  then show ?thesis
    unfolding fuller_numerator_def by (simp only: and_then_Inl)
qed

lemma fuller_divisor_present:
  assumes "map_of DiffGas_AB_SIGMA_v A = Some vA" "map_of DiffGas_AB_SIGMA_v B = Some vB"
  shows "fuller_divisor A B P = Inr (PyFloat (P * (vA powr (1 / 3) + vB powr (1 / 3)) ^ 2))"
proof -
  from assms(1) have a: "0 < vA" by (rule gas_SIGMA_pos)
  from assms(2) have b: "0 < vB" by (rule gas_SIGMA_pos)
  from assms(1) have a': "vA \<le> 1000" by (rule gas_SIGMA_le)
  from assms(2) have b': "vB \<le> 1000" by (rule gas_SIGMA_le)
  from a a' have ca: "float_pow vA (1 / 3) = Inr (PyFloat (vA powr (1 / 3)))"
    by (rule float_pow_bounded) simp_all
  from b b' have cb: "float_pow vB (1 / 3) = Inr (PyFloat (vB powr (1 / 3)))"
    by (rule float_pow_bounded) simp_all
  from a b have s: "0 < vA powr (1 / 3) + vB powr (1 / 3)"
    by (simp add: add_pos_pos)
  from a a' have "vA powr (1 / 3) \<le> 1000 ^ 2" by (rule powr_bound) simp_all
  moreover from b b' have "vB powr (1 / 3) \<le> 1000 ^ 2" by (rule powr_bound) simp_all
  ultimately have "vA powr (1 / 3) + vB powr (1 / 3) \<le> 2000000" by simp
  with s have "float_pow (vA powr (1 / 3) + vB powr (1 / 3)) 2
      = Inr (PyFloat ((vA powr (1 / 3) + vB powr (1 / 3)) powr 2))"
    by (rule float_pow_bounded) simp_all
  also from s have "(vA powr (1 / 3) + vB powr (1 / 3)) powr 2
      = (vA powr (1 / 3) + vB powr (1 / 3)) ^ 2"
    by (simp add: powr_numeral)
  finally have sq: "float_pow (vA powr (1 / 3) + vB powr (1 / 3)) 2
      = Inr (PyFloat ((vA powr (1 / 3) + vB powr (1 / 3)) ^ 2))" .
  show ?thesis
    unfolding fuller_divisor_def
    by (simp only: getitem_Some [OF assms(1)] getitem_Some [OF assms(2)] ca cb sq
        and_then_Inr py_add.simps py_pow.simps py_mul.simps)
qed

lemma fuller_divisor_pos:
  assumes "map_of DiffGas_AB_SIGMA_v A = Some vA" "map_of DiffGas_AB_SIGMA_v B = Some vB"
  shows "0 < (vA powr (1 / 3) + vB powr (1 / 3)) ^ 2"
proof -
  from assms(1) have a: "0 < vA" by (rule gas_SIGMA_pos)
  from assms(2) have b: "0 < vB" by (rule gas_SIGMA_pos)
  from a b have "0 < vA powr (1 / 3) + vB powr (1 / 3)"
    by (simp add: add_pos_pos)
  then show ?thesis by simp
qed

section \<open>Outcomes of \<open>DiffGas_AB\<close>\<close>


lemma DiffGas_AB_present:
  assumes "map_of DiffGas_AB_M A = Some mA" "map_of DiffGas_AB_M B = Some mB"
      and "map_of DiffGas_AB_SIGMA_v A = Some vA" "map_of DiffGas_AB_SIGMA_v B = Some vB"
      and "\<bar>T\<bar> powr 1.75 \<le> DBL_MAX"
  shows "DiffGas_AB A B T P =
    (if P = 0 then Inl ZeroDivisionError
     else Inr (if T < 0
       then PyComplex (complex_of_real 0.0101325
              * (rcis (\<bar>T\<bar> powr 1.75) (pi * 1.75)
                 * complex_of_real ((1 / mA + 1 / mB) powr (1 / 2)))
              / complex_of_real (P * (vA powr (1 / 3) + vB powr (1 / 3)) ^ 2))
       else PyFloat (0.0101325 * (T powr 1.75 * (1 / mA + 1 / mB) powr (1 / 2))
              / (P * (vA powr (1 / 3) + vB powr (1 / 3)) ^ 2))))"
proof -
  note n = fuller_numerator_present [OF assms(1,2,5)]
  note d = fuller_divisor_present [OF assms(3,4), of P]
  from fuller_divisor_pos [OF assms(3,4)]
  have q: "(vA powr (1 / 3) + vB powr (1 / 3)) ^ 2 \<noteq> 0" by simp
  have "DiffGas_AB A B T P =
      except_KeyError
        (py_truediv
          (py_mul (PyFloat 0.0101325)
            (py_mul (if T < 0 then PyComplex (rcis (\<bar>T\<bar> powr 1.75) (pi * 1.75))
                     else PyFloat (T powr 1.75))
                    (PyFloat ((1 / mA + 1 / mB) powr (1 / 2)))))
          (PyFloat (P * (vA powr (1 / 3) + vB powr (1 / 3)) ^ 2)))
        ''Unsuported gas selected''"
    unfolding DiffGas_AB_def by (simp only: n d and_then_Inr)
  also have "\<dots> = (if P = 0 then Inl ZeroDivisionError
     else Inr (if T < 0
       then PyComplex (complex_of_real 0.0101325
              * (rcis (\<bar>T\<bar> powr 1.75) (pi * 1.75)
                 * complex_of_real ((1 / mA + 1 / mB) powr (1 / 2)))
              / complex_of_real (P * (vA powr (1 / 3) + vB powr (1 / 3)) ^ 2))
       else PyFloat (0.0101325 * (T powr 1.75 * (1 / mA + 1 / mB) powr (1 / 2))
              / (P * (vA powr (1 / 3) + vB powr (1 / 3)) ^ 2))))"
  proof (cases "P = 0")
    case True
    then show ?thesis by (cases "T < 0") simp_all
  next
    case False
    with q have "P * (vA powr (1 / 3) + vB powr (1 / 3)) ^ 2 \<noteq> 0" by simp
    moreover from this
    have "complex_of_real (P * (vA powr (1 / 3) + vB powr (1 / 3)) ^ 2) \<noteq> 0"
      by (simp only: of_real_eq_0_iff not_False_eq_True)
    ultimately show ?thesis using False
      by (cases "T < 0")
         (simp_all del: of_real_mult of_real_power of_real_add of_real_divide mult_eq_0_iff)
  qed
  finally show ?thesis .
qed

lemma float_pow_175_in_range:
  assumes "\<bar>T\<bar> powr 1.75 \<le> DBL_MAX"
  shows "float_pow T 1.75 =
      Inr (if T < 0 then PyComplex (rcis (\<bar>T\<bar> powr 1.75) (pi * 1.75))
           else PyFloat (T powr 1.75))"
  using assms unfolding float_pow_175 by (simp only: not_less [symmetric] if_False)

lemma DiffGas_AB_overflow:
  assumes "DBL_MAX < \<bar>T\<bar> powr 1.75"
  shows "DiffGas_AB A B T P = Inl OverflowError"
  unfolding DiffGas_AB_def
  by (simp only: fuller_numerator_overflow [OF assms] and_then_Inl except_KeyError_simps)

lemma DiffGas_AB_absent:
  assumes "map_of DiffGas_AB_M A = None \<or> map_of DiffGas_AB_M B = None
         \<or> map_of DiffGas_AB_SIGMA_v A = None \<or> map_of DiffGas_AB_SIGMA_v B = None"
      and "\<bar>T\<bar> powr 1.75 \<le> DBL_MAX"
  shows "DiffGas_AB A B T P = Inl (KeyError ''Unsuported gas selected'')"
proof (cases "map_of DiffGas_AB_M A")
  case None
  then show ?thesis
    unfolding DiffGas_AB_def fuller_numerator_def
    by (simp only: float_pow_175_in_range [OF assms(2)] getitem_None and_then_Inr and_then_Inl except_KeyError_simps)
next
  case mA: (Some mA)
  from mA have a: "0 < mA" by (rule gas_M_pos)
  then have ia: "float_truediv 1 mA = Inr (1 / mA)"
    by (intro float_truediv_nonzero) simp
  show ?thesis
  proof (cases "map_of DiffGas_AB_M B")
    case None
    then show ?thesis
      unfolding DiffGas_AB_def fuller_numerator_def
      by (simp only: float_pow_175_in_range [OF assms(2)] getitem_None getitem_Some [OF mA] ia
          and_then_Inr and_then_Inl except_KeyError_simps)
  next
    case mB: (Some mB)
    note n = fuller_numerator_present [OF mA mB assms(2)]
    show ?thesis
    proof (cases "map_of DiffGas_AB_SIGMA_v A")
      case None
      then show ?thesis
        unfolding DiffGas_AB_def fuller_divisor_def
        by (simp only: n getitem_None and_then_Inr and_then_Inl except_KeyError_simps)
    next
      case vA: (Some vA)
      from vA have "0 < vA" by (rule gas_SIGMA_pos)
      moreover from vA have "vA \<le> 1000" by (rule gas_SIGMA_le)
      ultimately have ca: "float_pow vA (1 / 3) = Inr (PyFloat (vA powr (1 / 3)))"
        by (rule float_pow_bounded) simp_all
      from assms(1) mA mB vA have "map_of DiffGas_AB_SIGMA_v B = None" by simp
      then show ?thesis
        unfolding DiffGas_AB_def fuller_divisor_def
        by (simp only: n getitem_None getitem_Some [OF vA] ca
            and_then_Inr and_then_Inl except_KeyError_simps)
    qed
  qed
qed

section \<open>Claims on \<open>DiffGas_AB\<close>\<close>


lemma overflow_1e200: "DBL_MAX < \<bar>(10::real) ^ 200\<bar> powr 1.75"
proof -
  have "\<bar>(10::real) ^ 200\<bar> = 10 ^ 200" by simp
  with big_pow show ?thesis by (simp only:)
qed

lemma in_range_small:
  assumes "\<bar>T\<bar> \<le> 1000"
  shows "\<bar>T\<bar> powr 1.75 \<le> DBL_MAX"
proof (cases "T = 0")
  case True
  have "(0 :: real) \<le> 10 ^ 300" by simp
  then have "(0 :: real) \<le> DBL_MAX" by (rule le_DBL_MAX)
  with True show ?thesis by simp
next
  case False
  then have "0 < \<bar>T\<bar>" by simp
  from this assms have "\<bar>T\<bar> powr 1.75 \<le> 1000 ^ 2"
    by (rule powr_bound) simp_all
  also have "(1000 :: real) ^ 2 \<le> 10 ^ 300" by simp
  finally show ?thesis by (rule le_DBL_MAX)
qed

text \<open>
  C2, as stated: \<open>T**1.75\<close> is evaluated first, and for a temperature as large as
  \<open>1e200\<close> it leaves the range of a double: the call raises \<open>OverflowError\<close> and returns
  nothing, with both species in the tables, \<open>T > 0\<close> and \<open>P > 0\<close>.
\<close>

theorem DiffGas_AB_fuller_counterexample:
  "map_of DiffGas_AB_M ''H2'' = Some 2.01593 \<and>
   map_of DiffGas_AB_M ''Air'' = Some 28.963 \<and>
   map_of DiffGas_AB_SIGMA_v ''H2'' = Some 6.12 \<and>
   map_of DiffGas_AB_SIGMA_v ''Air'' = Some 19.7 \<and>
   (0 :: real) < 10 ^ 200 \<and> (0 :: real) < 101325 \<and>
   DiffGas_AB ''H2'' ''Air'' (10 ^ 200) 101325 = Inl OverflowError"
proof -
  have h1: "map_of DiffGas_AB_M ''H2'' = Some 2.01593"
    by (simp add: DiffGas_AB_M_def)
  have h2: "map_of DiffGas_AB_M ''Air'' = Some 28.963"
    by (simp add: DiffGas_AB_M_def)
  have h3: "map_of DiffGas_AB_SIGMA_v ''H2'' = Some 6.12"
    by (simp add: DiffGas_AB_SIGMA_v_def)
  have h4: "map_of DiffGas_AB_SIGMA_v ''Air'' = Some 19.7"
    by (simp add: DiffGas_AB_SIGMA_v_def)
  have h5: "(0 :: real) < 10 ^ 200" by simp
  have h6: "(0 :: real) < 101325" by simp
  have r: "DiffGas_AB ''H2'' ''Air'' (10 ^ 200) 101325 = Inl OverflowError"
    by (rule DiffGas_AB_overflow [OF overflow_1e200])
  from h1 h2 h3 h4 h5 h6 r show ?thesis by (intro conjI)
qed

text \<open>
  C2, amended. For species \<open>A\<close> and \<open>B\<close> with entries in \<open>M\<close> and \<open>SIGMA_v\<close>, a
  temperature \<open>T > 0\<close> whose power \<open>T^1.75\<close> does not exceed the largest double, and
  \<open>P > 0\<close>, \<open>DiffGas_AB\<close> returns the float
  \<open>0.0101325 * (T^1.75 * (1/M[A] + 1/M[B])^0.5) / (P * (SIGMA_v[A]^(1/3) + SIGMA_v[B]^(1/3))^2)\<close>.
\<close>

theorem DiffGas_AB_fuller:
  assumes "map_of DiffGas_AB_M A = Some mA" "map_of DiffGas_AB_M B = Some mB"
      and "map_of DiffGas_AB_SIGMA_v A = Some vA" "map_of DiffGas_AB_SIGMA_v B = Some vB"
      and "0 < T" "T powr 1.75 \<le> DBL_MAX" "0 < P"
  shows "DiffGas_AB A B T P =
     Inr (PyFloat (0.0101325 * (T powr 1.75 * (1 / mA + 1 / mB) powr 0.5)
                   / (P * (vA powr (1 / 3) + vB powr (1 / 3)) ^ 2)))"
proof -
  have half: "(0.5 :: real) = 1 / 2" by simp
  from assms(5,6) have "\<bar>T\<bar> powr 1.75 \<le> DBL_MAX" by simp
  note r = DiffGas_AB_present [OF assms(1-4) this]
  from assms(5,7) show ?thesis
    unfolding half r by simp
qed

theorem DiffGas_AB_fuller_witness:
  "map_of DiffGas_AB_M ''H2'' = Some 2.01593 \<and>
   map_of DiffGas_AB_M ''Air'' = Some 28.963 \<and>
   map_of DiffGas_AB_SIGMA_v ''H2'' = Some 6.12 \<and>
   map_of DiffGas_AB_SIGMA_v ''Air'' = Some 19.7 \<and>
   (0 :: real) < 298 \<and> (298 :: real) powr 1.75 \<le> DBL_MAX \<and> (0 :: real) < 101325 \<and>
   DiffGas_AB ''H2'' ''Air'' 298 101325 =
     Inr (PyFloat (0.0101325 * (298 powr 1.75 * (1 / 2.01593 + 1 / 28.963) powr 0.5)
                   / (101325 * (6.12 powr (1 / 3) + 19.7 powr (1 / 3)) ^ 2)))"
proof -
  have h1: "map_of DiffGas_AB_M ''H2'' = Some 2.01593"
    by (simp add: DiffGas_AB_M_def)
  have h2: "map_of DiffGas_AB_M ''Air'' = Some 28.963"
    by (simp add: DiffGas_AB_M_def)
  have h3: "map_of DiffGas_AB_SIGMA_v ''H2'' = Some 6.12"
    by (simp add: DiffGas_AB_SIGMA_v_def)
  have h4: "map_of DiffGas_AB_SIGMA_v ''Air'' = Some 19.7"
    by (simp add: DiffGas_AB_SIGMA_v_def)
  have h5: "(0 :: real) < 298" by simp
  have "\<bar>298 :: real\<bar> \<le> 1000" by simp
  from in_range_small [OF this] have h6: "(298 :: real) powr 1.75 \<le> DBL_MAX"
    by (simp only: abs_numeral)
  have h7: "(0 :: real) < 101325" by simp
  note r = DiffGas_AB_fuller [OF h1 h2 h3 h4 h5 h6 h7]
  from h1 h2 h3 h4 h5 h6 h7 r show ?thesis by (intro conjI)
qed




section \<open>Unsupported gases\<close>


text \<open>
  C6, as stated: with both species in the tables and \<open>P = 0\<close> the call does not return
  the computed value, it raises \<open>ZeroDivisionError\<close>; and with a species that is in no
  table and \<open>T = 1e200\<close> it does not raise the gas error: \<open>T**1.75\<close>, evaluated before
  any lookup, raises \<open>OverflowError\<close>, which the handler lets through.
\<close>

theorem DiffGas_AB_unsupported_gas_counterexample:
  "''H2'' \<in> set (map fst DiffGas_AB_M) \<and> ''Air'' \<in> set (map fst DiffGas_AB_M) \<and>
   ''H2'' \<in> set (map fst DiffGas_AB_SIGMA_v) \<and> ''Air'' \<in> set (map fst DiffGas_AB_SIGMA_v) \<and>
   DiffGas_AB ''H2'' ''Air'' 298 0 = Inl ZeroDivisionError \<and>
   ''Xx'' \<notin> set (map fst DiffGas_AB_M) \<and>
   DiffGas_AB ''Xx'' ''Air'' (10 ^ 200) 101325 = Inl OverflowError"
proof -
  have h1: "map_of DiffGas_AB_M ''H2'' = Some 2.01593"
    by (simp add: DiffGas_AB_M_def)
  have h2: "map_of DiffGas_AB_M ''Air'' = Some 28.963"
    by (simp add: DiffGas_AB_M_def)
  have h3: "map_of DiffGas_AB_SIGMA_v ''H2'' = Some 6.12"
    by (simp add: DiffGas_AB_SIGMA_v_def)
  have h4: "map_of DiffGas_AB_SIGMA_v ''Air'' = Some 19.7"
    by (simp add: DiffGas_AB_SIGMA_v_def)
  have "\<bar>298 :: real\<bar> \<le> 1000" by simp
  then have t: "\<bar>298 :: real\<bar> powr 1.75 \<le> DBL_MAX" by (rule in_range_small)
  have z: "DiffGas_AB ''H2'' ''Air'' 298 0 = Inl ZeroDivisionError"
    unfolding DiffGas_AB_present [OF h1 h2 h3 h4 t] by simp
  have x: "''Xx'' \<notin> set (map fst DiffGas_AB_M)"
    by (simp add: DiffGas_AB_M_def)
  have v: "DiffGas_AB ''Xx'' ''Air'' (10 ^ 200) 101325 = Inl OverflowError"
    by (rule DiffGas_AB_overflow [OF overflow_1e200])
  from map_of_Some_keys [OF h1] map_of_Some_keys [OF h2]
    map_of_Some_keys [OF h3] map_of_Some_keys [OF h4] z x v
  show ?thesis by (intro conjI)
qed

text \<open>
  C6, amended. At every pressure and every temperature whose power \<open>|T|^1.75\<close> does not
  exceed the largest double, \<open>DiffGas_AB\<close> raises \<open>KeyError('Unsuported gas selected')\<close>
  if and only if one of the two species is no key of \<open>M\<close> or of \<open>SIGMA_v\<close>. Otherwise,
  when \<open>P\<close> is not zero, it returns the value of the expression: the float of the
  correlation for \<open>T \<ge> 0\<close>, and for \<open>T < 0\<close> the complex number that \<open>T**1.75\<close> makes
  of it.
\<close>

theorem DiffGas_AB_unsupported_gas:
  assumes "\<bar>T\<bar> powr 1.75 \<le> DBL_MAX"
  shows "(DiffGas_AB A B T P = Inl (KeyError ''Unsuported gas selected'')
      \<longleftrightarrow> A \<notin> set (map fst DiffGas_AB_M) \<or> B \<notin> set (map fst DiffGas_AB_M)
        \<or> A \<notin> set (map fst DiffGas_AB_SIGMA_v) \<or> B \<notin> set (map fst DiffGas_AB_SIGMA_v)) \<and>
   (map_of DiffGas_AB_M A = Some mA \<and> map_of DiffGas_AB_M B = Some mB \<and>
    map_of DiffGas_AB_SIGMA_v A = Some vA \<and> map_of DiffGas_AB_SIGMA_v B = Some vB \<and> P \<noteq> 0
      \<longrightarrow> DiffGas_AB A B T P =
          Inr (if T < 0
            then PyComplex (complex_of_real 0.0101325
                   * (rcis (\<bar>T\<bar> powr 1.75) (pi * 1.75)
                      * complex_of_real ((1 / mA + 1 / mB) powr (1 / 2)))
                   / complex_of_real (P * (vA powr (1 / 3) + vB powr (1 / 3)) ^ 2))
            else PyFloat (0.0101325 * (T powr 1.75 * (1 / mA + 1 / mB) powr (1 / 2))
                   / (P * (vA powr (1 / 3) + vB powr (1 / 3)) ^ 2))))"
proof (intro conjI impI)
  assume "map_of DiffGas_AB_M A = Some mA \<and> map_of DiffGas_AB_M B = Some mB \<and>
    map_of DiffGas_AB_SIGMA_v A = Some vA \<and> map_of DiffGas_AB_SIGMA_v B = Some vB \<and> P \<noteq> 0"
  then have h: "map_of DiffGas_AB_M A = Some mA" "map_of DiffGas_AB_M B = Some mB"
    "map_of DiffGas_AB_SIGMA_v A = Some vA" "map_of DiffGas_AB_SIGMA_v B = Some vB"
    and p: "P \<noteq> 0" by simp_all
  from p show "DiffGas_AB A B T P =
          Inr (if T < 0
            then PyComplex (complex_of_real 0.0101325
                   * (rcis (\<bar>T\<bar> powr 1.75) (pi * 1.75)
                      * complex_of_real ((1 / mA + 1 / mB) powr (1 / 2)))
                   / complex_of_real (P * (vA powr (1 / 3) + vB powr (1 / 3)) ^ 2))
            else PyFloat (0.0101325 * (T powr 1.75 * (1 / mA + 1 / mB) powr (1 / 2))
                   / (P * (vA powr (1 / 3) + vB powr (1 / 3)) ^ 2)))"
    unfolding DiffGas_AB_present [OF h assms] by (simp only: if_False)
next
  show "DiffGas_AB A B T P = Inl (KeyError ''Unsuported gas selected'')
      \<longleftrightarrow> A \<notin> set (map fst DiffGas_AB_M) \<or> B \<notin> set (map fst DiffGas_AB_M)
        \<or> A \<notin> set (map fst DiffGas_AB_SIGMA_v) \<or> B \<notin> set (map fst DiffGas_AB_SIGMA_v)"
  proof (cases "A \<in> set (map fst DiffGas_AB_M) \<and> B \<in> set (map fst DiffGas_AB_M)
        \<and> A \<in> set (map fst DiffGas_AB_SIGMA_v) \<and> B \<in> set (map fst DiffGas_AB_SIGMA_v)")
    case True
    then have k: "A \<in> set (map fst DiffGas_AB_M)" "B \<in> set (map fst DiffGas_AB_M)"
      "A \<in> set (map fst DiffGas_AB_SIGMA_v)" "B \<in> set (map fst DiffGas_AB_SIGMA_v)"
      by simp_all
    from keys_map_of_Some [OF k(1)] obtain a where a: "map_of DiffGas_AB_M A = Some a" ..
    from keys_map_of_Some [OF k(2)] obtain b where b: "map_of DiffGas_AB_M B = Some b" ..
    from keys_map_of_Some [OF k(3)] obtain c where c: "map_of DiffGas_AB_SIGMA_v A = Some c" ..
    from keys_map_of_Some [OF k(4)] obtain d where d: "map_of DiffGas_AB_SIGMA_v B = Some d" ..
    have "DiffGas_AB A B T P \<noteq> Inl (KeyError ''Unsuported gas selected'')"
      unfolding DiffGas_AB_present [OF a b c d assms] by (cases "P = 0") simp_all
    with True show ?thesis by simp
  next
    case False
    then have "map_of DiffGas_AB_M A = None \<or> map_of DiffGas_AB_M B = None
         \<or> map_of DiffGas_AB_SIGMA_v A = None \<or> map_of DiffGas_AB_SIGMA_v B = None"
      by (simp add: map_of_eq_None_iff)
    from this assms
    have "DiffGas_AB A B T P = Inl (KeyError ''Unsuported gas selected'')"
      by (rule DiffGas_AB_absent)
    with False show ?thesis by simp
  qed
qed

theorem DiffGas_AB_unsupported_gas_witness:
  "\<bar>298 :: real\<bar> powr 1.75 \<le> DBL_MAX \<and>
   ''Xx'' \<notin> set (map fst DiffGas_AB_M) \<and>
   DiffGas_AB ''Xx'' ''Air'' 298 101325 = Inl (KeyError ''Unsuported gas selected'') \<and>
   map_of DiffGas_AB_M ''H2'' = Some 2.01593 \<and>
   map_of DiffGas_AB_M ''Air'' = Some 28.963 \<and>
   map_of DiffGas_AB_SIGMA_v ''H2'' = Some 6.12 \<and>
   map_of DiffGas_AB_SIGMA_v ''Air'' = Some 19.7 \<and>
   (101325 :: real) \<noteq> 0 \<and>
   DiffGas_AB ''H2'' ''Air'' 298 101325 =
     Inr (PyFloat (0.0101325 * (298 powr 1.75 * (1 / 2.01593 + 1 / 28.963) powr (1 / 2))
                   / (101325 * (6.12 powr (1 / 3) + 19.7 powr (1 / 3)) ^ 2)))"
proof -
  have x: "''Xx'' \<notin> set (map fst DiffGas_AB_M)"
    by (simp add: DiffGas_AB_M_def)
  have h1: "map_of DiffGas_AB_M ''H2'' = Some 2.01593"
    by (simp add: DiffGas_AB_M_def)
  have h2: "map_of DiffGas_AB_M ''Air'' = Some 28.963"
    by (simp add: DiffGas_AB_M_def)
  have h3: "map_of DiffGas_AB_SIGMA_v ''H2'' = Some 6.12"
    by (simp add: DiffGas_AB_SIGMA_v_def)
  have h4: "map_of DiffGas_AB_SIGMA_v ''Air'' = Some 19.7"
    by (simp add: DiffGas_AB_SIGMA_v_def)
  have h5: "(101325 :: real) \<noteq> 0" by simp
  have "\<bar>298 :: real\<bar> \<le> 1000" by simp
  then have t: "\<bar>298 :: real\<bar> powr 1.75 \<le> DBL_MAX" by (rule in_range_small)
  note absent = DiffGas_AB_unsupported_gas
    [OF t, of "''Xx''" "''Air''" 101325, THEN conjunct1]
  note present = DiffGas_AB_unsupported_gas
    [OF t, of "''H2''" "''Air''" 101325 "2.01593" "28.963" "6.12" "19.7", THEN conjunct2]
  from x absent
  have a: "DiffGas_AB ''Xx'' ''Air'' 298 101325 = Inl (KeyError ''Unsuported gas selected'')"
    by (simp only: simp_thms)
  from h1 h2 h3 h4 h5 present
  have b: "DiffGas_AB ''H2'' ''Air'' 298 101325 =
     Inr (PyFloat (0.0101325 * (298 powr 1.75 * (1 / 2.01593 + 1 / 28.963) powr (1 / 2))
                   / (101325 * (6.12 powr (1 / 3) + 19.7 powr (1 / 3)) ^ 2)))"
    by simp
  from t x a h1 h2 h3 h4 h5 b show ?thesis by (intro conjI)
qed

end
